theory Spec2Isabelle
  imports Main "HOL-Library.Word" "HOL-Library.Sublist"
begin

section \<open>Python values and string formatting\<close>

text \<open>
  Python's \<open>int\<close> is unbounded and is modelled by \<open>int\<close>; \<open>str\<close> is modelled by
  \<open>string\<close>.  \<open>digits\<close> is the decimal numeral \<open>str\<close> prints for a non-negative
  integer, \<open>str_int\<close> is \<open>str(n)\<close> (what \<open>{year}\<close> puts into an f-string) and
  \<open>format_05d\<close> is the format specification \<open>05d\<close>: the sign first, then zeros up to
  a total width of five, then the digits; a numeral wider than the field is never cut.
\<close>

definition digit_char :: "nat \<Rightarrow> char" where
  "digit_char d = ''0123456789'' ! d"

function digits :: "nat \<Rightarrow> string" where
  "digits n = (if n < 10 then [digit_char n] else digits (n div 10) @ [digit_char (n mod 10)])"
  by pat_completeness auto
termination
  by (relation "measure id") auto

declare digits.simps [simp del]

definition str_int :: "int \<Rightarrow> string" where
  "str_int n = (if n < 0 then CHR ''-'' # digits (nat (- n)) else digits (nat n))"

definition format_05d :: "int \<Rightarrow> string" where
  "format_05d n =
     (let sign = (if n < 0 then ''-'' else '''');
          ds = digits (nat \<bar>n\<bar>)
      in sign @ replicate (5 - (length sign + length ds)) (CHR ''0'') @ ds)"

text \<open>
  Reading a numeral back, as Python's \<open>int(s)\<close> does on an optional minus sign followed
  by decimal digits.  These functions are used to say which number a printed field denotes.
\<close>

definition digit_val :: "char \<Rightarrow> nat" where
  "digit_val c = of_char c - 48"

definition nat_of_digits :: "string \<Rightarrow> nat" where
  "nat_of_digits s = foldl (\<lambda>a c. 10 * a + digit_val c) 0 s"

definition int_of_str :: "string \<Rightarrow> int" where
  "int_of_str s =
     (case s of
        [] \<Rightarrow> 0
      | c # r \<Rightarrow> if c = CHR ''-'' then - int (nat_of_digits r) else int (nat_of_digits s))"

text \<open>The part of an invoice identifier after its last slash, read as a number.\<close>

definition numeric_suffix :: "string \<Rightarrow> int" where
  "numeric_suffix s = int_of_str (rev (takeWhile (\<lambda>c. c \<noteq> CHR ''/'') (rev s)))"

section \<open>Documents of the store\<close>

text \<open>
  A Python \<open>float\<close> is an IEEE-754 binary64 value and is kept as its 64-bit pattern.
  An \<open>ObjectId\<close> is a 12-byte value; \<open>str\<close> prints it as 24 lower-case hexadecimal
  digits.  The \<open>_id\<close> of an order document is an \<open>ObjectId\<close> in the store and a string
  once \<open>list_orders\<close> has made it serialisable.
\<close>

type_synonym pyfloat = "64 word"

datatype id_value = ObjectId "96 word" | IdStr string

definition hex_char :: "nat \<Rightarrow> char" where
  "hex_char d = ''0123456789abcdef'' ! d"

definition str_object_id :: "96 word \<Rightarrow> string" where
  "str_object_id w = map (\<lambda>i. hex_char (unat (and (drop_bit (4 * (23 - i)) w) 15))) [0..<24]"

fun str_id :: "id_value \<Rightarrow> string" where
  "str_id (ObjectId w) = str_object_id w"
| "str_id (IdStr s) = s"

text \<open>Python's slice \<open>s[-k:]\<close> for a positive \<open>k\<close>: the last \<open>k\<close> characters, or all of \<open>s\<close>.\<close>

definition last_chars :: "nat \<Rightarrow> string \<Rightarrow> string" where
  "last_chars k s = drop (length s - k) s"

text \<open>The request models of \<open>main.py\<close>.\<close>

record CartItem =
  product_id :: string
  title :: string
  quantity :: int
  price :: pyfloat

record OrderIn =
  oi_user_email :: string
  oi_items :: "CartItem list"

record VerifyPaymentIn =
  vp_order_id :: string
  vp_payment_id :: "string option"
  vp_signature :: "string option"

record EmailIn =
  em_to :: string
  em_subject :: string
  em_html :: "string option"
  em_text :: "string option"

text \<open>
  A document of the collection \<open>order\<close>.  The fields that the code reads with
  \<open>.get\<close> or sets after the insertion are optional: \<open>None\<close> is an absent key.
  \<open>created_at\<close> and \<open>updated_at\<close> are instants in milliseconds.
\<close>

record order_doc =
  doc_id :: id_value
  user_email :: "string option"
  items :: "CartItem list option"
  amount :: "pyfloat option"
  status :: string
  created_at :: int
  updated_at :: int
  order_id :: "string option"
  payment_id :: "string option"
  invoice_number :: "string option"

text \<open>
  The singleton document \<open>{"_id": "seq"}\<close> of the collection \<open>invoicesequence\<close>;
  the collection holds it or not.
\<close>

record invoicesequence_doc =
  last_number :: "int option"

record database =
  name :: string
  invoicesequence :: "invoicesequence_doc option"
  order_coll :: "order_doc list"

text \<open>What a request reads from its surroundings: the clock, the driver, the process.\<close>

record env =
  local_year :: int
  local_date :: string
  utc_now_first :: int
  utc_now_second :: int
  new_object_id :: "96 word"
  database_url :: "string option"
  list_collections_error :: "string option"

datatype failure = HTTPException nat string | Unhandled string

section \<open>The invoice sequence allocator\<close>

text \<open>
  \<open>find_one_and_update({"_id": "seq"}, {"$inc": {"last_number": k}}, upsert=True,
  return_document=True)\<close> is one operation of the store: it inserts the document when
  it is absent, adds \<open>k\<close> to the field (an absent field counts as 0) and returns the
  document as it is after the update.
\<close>

definition find_one_and_update_inc ::
  "int \<Rightarrow> invoicesequence_doc option \<Rightarrow> invoicesequence_doc \<times> invoicesequence_doc option" where
  "find_one_and_update_inc k coll =
     (let doc = (case coll of None \<Rightarrow> \<lparr>last_number = None\<rparr> | Some d \<Rightarrow> d);
          doc' = doc\<lparr>last_number := Some ((case last_number doc of None \<Rightarrow> 0 | Some n \<Rightarrow> n) + k)\<rparr>
      in (doc', Some doc'))"

definition generate_invoice_number :: "int \<Rightarrow> database \<Rightarrow> string \<times> database" where
  "generate_invoice_number year db =
     (let (seq, coll) = find_one_and_update_inc 1 (invoicesequence db);
          num = (case last_number seq of None \<Rightarrow> 1 | Some n \<Rightarrow> n)
      in (''TRI/'' @ str_int year @ ''/'' @ format_05d num, db\<lparr>invoicesequence := coll\<rparr>))"

text \<open>
  The value of the counter: 0 as long as the document or its field is absent.  The
  counter is a Python integer to the program; the capacity of the store's integer type
  and failures of the store itself are outside this model.
\<close>

definition counter_value :: "database \<Rightarrow> int" where
  "counter_value db =
     (case invoicesequence db of
        None \<Rightarrow> 0
      | Some d \<Rightarrow> (case last_number d of None \<Rightarrow> 0 | Some n \<Rightarrow> n))"

text \<open>
  Callers that run at the same time interleave at the operations of the store, each of
  which is indivisible.  An allocation is the single operation above; every other
  operation of the program reads or writes the collection \<open>order\<close> only.  \<open>run\<close>
  executes such an interleaving and collects what the allocations return.
\<close>

datatype store_op = Allocate int | OrderOp "order_doc list \<Rightarrow> order_doc list"

fun run :: "store_op list \<Rightarrow> database \<Rightarrow> string list \<times> database" where
  "run [] db = ([], db)"
| "run (Allocate year # ops) db =
     (let (inv, db') = generate_invoice_number year db;
          (invs, db'') = run ops db'
      in (inv # invs, db''))"
| "run (OrderOp f # ops) db = run ops (db\<lparr>order_coll := f (order_coll db)\<rparr>)"

fun is_allocation :: "store_op \<Rightarrow> bool" where
  "is_allocation (Allocate year) = True"
| "is_allocation (OrderOp f) = False"

section \<open>Floating-point operations\<close>

text \<open>
  The arithmetic of \<open>float\<close> is not interpreted: the operations the program uses are
  parameters.  \<open>float_of_int\<close> is the conversion of an integer that \<open>float * int\<close>
  performs, \<open>float_mul\<close> the product of two floats, \<open>float_sum xs\<close> the value of
  \<open>float(sum(xs))\<close> and \<open>format_2f\<close> the format specification \<open>.2f\<close>.  What is
  interpreted is when the conversion raises: Python raises \<open>OverflowError\<close> for an
  integer that rounds beyond the largest finite float.
\<close>

record float_ops =
  float_of_int :: "int \<Rightarrow> pyfloat"
  float_mul :: "pyfloat \<Rightarrow> pyfloat \<Rightarrow> pyfloat"
  float_sum :: "pyfloat list \<Rightarrow> pyfloat"
  format_2f :: "pyfloat \<Rightarrow> string"

definition int_fits_float :: "int \<Rightarrow> bool" where
  "int_fits_float n \<longleftrightarrow> \<bar>n\<bar> < 2 ^ 1024 - 2 ^ 970"

definition float_is_nan :: "pyfloat \<Rightarrow> bool" where
  "float_is_nan w \<longleftrightarrow> 0x7FF0000000000000 < and w 0x7FFFFFFFFFFFFFFF"

text \<open>
  The comparison \<open>x >= 0\<close> of a float: false for a NaN, true when the sign bit is
  clear (the pattern is below \<open>2^63\<close>) and for the negative zero.
\<close>

definition float_ge_zero :: "pyfloat \<Rightarrow> bool" where
  "float_ge_zero w \<longleftrightarrow>
     \<not> float_is_nan w \<and> (w < 0x8000000000000000 \<or> and w 0x7FFFFFFFFFFFFFFF = 0)"

section \<open>Binary64 arithmetic\<close>

text \<open>
  The interpretation of the operations on IEEE-754 binary64 patterns: one sign bit, eleven
  exponent bits, 52 fraction bits.  A finite pattern denotes \<open>b64_sig w * 2 ^ b64_expo w\<close>.
  \<open>b64_round s m e\<close> is the pattern nearest to \<open>m * 2 ^ e\<close> with sign \<open>s\<close>, a tie going
  to the even significand and a value beyond the largest finite one to infinity.  The
  product and the sum are the exact results rounded that way (a sum with a zero is the
  other operand).  \<open>b64_sum\<close> is
  \<open>float(sum(xs))\<close> as a summation from the integer 0, left to right.
\<close>

definition b64_sign :: "pyfloat \<Rightarrow> bool" where
  "b64_sign w \<longleftrightarrow> 2 ^ 63 \<le> unat w"

definition b64_exp :: "pyfloat \<Rightarrow> nat" where
  "b64_exp w = unat w div 2 ^ 52 mod 2 ^ 11"

definition b64_frac :: "pyfloat \<Rightarrow> nat" where
  "b64_frac w = unat w mod 2 ^ 52"

definition b64_is_nan :: "pyfloat \<Rightarrow> bool" where
  "b64_is_nan w \<longleftrightarrow> b64_exp w = 2047 \<and> b64_frac w \<noteq> 0"

definition b64_is_inf :: "pyfloat \<Rightarrow> bool" where
  "b64_is_inf w \<longleftrightarrow> b64_exp w = 2047 \<and> b64_frac w = 0"

definition b64_mant :: "pyfloat \<Rightarrow> nat" where
  "b64_mant w = (if b64_exp w = 0 then b64_frac w else 2 ^ 52 + b64_frac w)"

definition b64_expo :: "pyfloat \<Rightarrow> int" where
  "b64_expo w = (if b64_exp w = 0 then - 1074 else int (b64_exp w) - 1075)"

definition b64_sig :: "pyfloat \<Rightarrow> int" where
  "b64_sig w = (if b64_sign w then - int (b64_mant w) else int (b64_mant w))"

definition b64_pack :: "bool \<Rightarrow> nat \<Rightarrow> nat \<Rightarrow> pyfloat" where
  "b64_pack s ex fr = of_nat ((if s then 2 ^ 63 else 0) + ex * 2 ^ 52 + fr)"

definition b64_nan :: pyfloat where
  "b64_nan = 0x7FF8000000000000"

function bitlen :: "nat \<Rightarrow> nat" where
  "bitlen n = (if n = 0 then 0 else Suc (bitlen (n div 2)))"
  by pat_completeness auto
termination
  by (relation "measure id") auto

declare bitlen.simps [simp del]

text \<open>\<open>m / 2 ^ k\<close> rounded to the nearest integer, a tie to the even one.\<close>

definition round_half_even :: "nat \<Rightarrow> nat \<Rightarrow> nat" where
  "round_half_even m k =
     (if k = 0 then m
      else let d = m div 2 ^ k; r = m mod 2 ^ k; h = 2 ^ (k - 1)
           in if h < r \<or> (r = h \<and> odd d) then d + 1 else d)"

definition b64_round :: "bool \<Rightarrow> nat \<Rightarrow> int \<Rightarrow> pyfloat" where
  "b64_round s m e =
     (let e1 = max (e + int (bitlen m) - 53) (- 1074);
          q1 = (if e1 \<le> e then m * 2 ^ nat (e - e1) else round_half_even m (nat (e1 - e)));
          q = (if q1 = 2 ^ 53 then 2 ^ 52 else q1);
          e2 = (if q1 = 2 ^ 53 then e1 + 1 else e1)
      in if q < 2 ^ 52 then b64_pack s 0 q
         else if 2047 \<le> e2 + 1075 then b64_pack s 2047 0
         else b64_pack s (nat (e2 + 1075)) (q - 2 ^ 52))"

definition b64_of_int :: "int \<Rightarrow> pyfloat" where
  "b64_of_int n = b64_round (n < 0) (nat \<bar>n\<bar>) 0"

definition b64_mul :: "pyfloat \<Rightarrow> pyfloat \<Rightarrow> pyfloat" where
  "b64_mul a b =
     (if b64_is_nan a \<or> b64_is_nan b then b64_nan
      else if b64_is_inf a \<or> b64_is_inf b
      then (if b64_mant a = 0 \<and> \<not> b64_is_inf a \<or> b64_mant b = 0 \<and> \<not> b64_is_inf b
            then b64_nan else b64_pack (b64_sign a \<noteq> b64_sign b) 2047 0)
      else b64_round (b64_sign a \<noteq> b64_sign b) (b64_mant a * b64_mant b) (b64_expo a + b64_expo b))"

definition b64_add :: "pyfloat \<Rightarrow> pyfloat \<Rightarrow> pyfloat" where
  "b64_add a b =
     (if b64_is_nan a \<or> b64_is_nan b then b64_nan
      else if b64_is_inf a then (if b64_is_inf b \<and> b64_sign a \<noteq> b64_sign b then b64_nan else a)
      else if b64_is_inf b then b
      else if b64_mant a = 0 \<and> b64_mant b = 0 then b64_pack (b64_sign a \<and> b64_sign b) 0 0
      else if b64_mant a = 0 then b
      else if b64_mant b = 0 then a
      else let e = min (b64_expo a) (b64_expo b);
               x = b64_sig a * 2 ^ nat (b64_expo a - e) + b64_sig b * 2 ^ nat (b64_expo b - e)
           in if x = 0 then b64_pack (b64_sign a \<and> b64_sign b) 0 0
              else b64_round (x < 0) (nat \<bar>x\<bar>) e)"

definition b64_sum :: "pyfloat list \<Rightarrow> pyfloat" where
  "b64_sum xs = foldl b64_add (b64_of_int 0) xs"

text \<open>The format specification \<open>.2f\<close>: the value rounded to hundredths, a tie to even.\<close>

definition b64_format_2f :: "pyfloat \<Rightarrow> string" where
  "b64_format_2f w =
     (if b64_is_nan w then ''nan''
      else (if b64_sign w then ''-'' else '''') @
        (if b64_is_inf w then ''inf''
         else let n = (if 0 \<le> b64_expo w then b64_mant w * 100 * 2 ^ nat (b64_expo w)
                       else round_half_even (b64_mant w * 100) (nat (- b64_expo w)))
              in digits (n div 100) @ ''.'' @ [digit_char (n div 10 mod 10), digit_char (n mod 10)]))"

definition binary64 :: float_ops where
  "binary64 = \<lparr>float_of_int = b64_of_int, float_mul = b64_mul, float_sum = b64_sum,
                format_2f = b64_format_2f\<rparr>"

section \<open>Operations of the store on the collection of orders\<close>

text \<open>
  \<open>find_one\<close> returns the first document that matches, \<open>update_one\<close> changes the
  first document that matches.  \<open>insert_one\<close> encodes the document, which fails on an
  integer outside 64 bits, and refuses a second document with the same \<open>_id\<close>.
\<close>

fun find_one :: "('a \<Rightarrow> bool) \<Rightarrow> 'a list \<Rightarrow> 'a option" where
  "find_one p [] = None"
| "find_one p (d # ds) = (if p d then Some d else find_one p ds)"

fun update_one :: "('a \<Rightarrow> bool) \<Rightarrow> ('a \<Rightarrow> 'a) \<Rightarrow> 'a list \<Rightarrow> 'a list" where
  "update_one p f [] = []"
| "update_one p f (d # ds) = (if p d then f d # ds else d # update_one p f ds)"

definition bson_int :: "int \<Rightarrow> bool" where
  "bson_int n \<longleftrightarrow> - (2 ^ 63) \<le> n \<and> n < 2 ^ 63"

definition items_of :: "order_doc \<Rightarrow> CartItem list" where
  "items_of d = (case items d of None \<Rightarrow> [] | Some its \<Rightarrow> its)"

definition insert_one :: "order_doc \<Rightarrow> order_doc list \<Rightarrow> failure + order_doc list" where
  "insert_one doc coll =
     (if \<not> list_all (\<lambda>i. bson_int (quantity i)) (items_of doc) then Inl (Unhandled ''OverflowError'')
      else if doc_id doc \<in> set (map doc_id coll) then Inl (Unhandled ''DuplicateKeyError'')
      else Inr (coll @ [doc]))"

text \<open>
  \<open>.sort(key, -1)\<close>: descending order of the key.  The store does not say in which
  order documents with equal keys come; the model fixes one.
\<close>

definition sort_descending :: "('a \<Rightarrow> int) \<Rightarrow> 'a list \<Rightarrow> 'a list" where
  "sort_descending k xs = rev (sort_key k xs)"

section \<open>Request validation\<close>

text \<open>
  The framework validates a request body against the model class of the handler and
  answers 422 when a field constraint fails.  The handlers use the classes of
  \<open>main.py\<close>, whose \<open>CartItem\<close> declares types only; the \<open>CartItem\<close> of
  \<open>schemas.py\<close> declares \<open>quantity: ge=1\<close> and \<open>price: ge=0\<close>.
\<close>

definition main_CartItem_constraints :: "CartItem \<Rightarrow> bool" where
  "main_CartItem_constraints i \<longleftrightarrow> True"

definition schemas_CartItem_constraints :: "CartItem \<Rightarrow> bool" where
  "schemas_CartItem_constraints i \<longleftrightarrow> 1 \<le> quantity i \<and> float_ge_zero (price i)"

definition validate_OrderIn :: "(CartItem \<Rightarrow> bool) \<Rightarrow> OrderIn \<Rightarrow> failure + OrderIn" where
  "validate_OrderIn ok payload =
     (if list_all ok (oi_items payload) then Inr payload
      else Inl (HTTPException 422 ''Unprocessable Entity''))"

section \<open>The handlers\<close>

definition read_root :: string where
  "read_root = ''TRI Backend Running''"

definition hello :: string where
  "hello = ''Hello from TRI backend API!''"

text \<open>The symbols of the diagnostic strings and of the invoice, in UTF-8.\<close>

definition check_mark :: string where
  "check_mark = [CHR 0xE2, CHR 0x9C, CHR 0x85]"

definition cross_mark :: string where
  "cross_mark = [CHR 0xE2, CHR 0x9D, CHR 0x8C]"

definition warning_sign :: string where
  "warning_sign = [CHR 0xE2, CHR 0x9A, CHR 0xA0, CHR 0xEF, CHR 0xB8, CHR 0x8F]"

definition rupee :: string where
  "rupee = [CHR 0xE2, CHR 0x82, CHR 0xB9]"

definition nl :: string where
  "nl = [CHR 0x0A]"

text \<open>
  The diagnostic endpoint.  A store object always has a \<open>name\<close>; the listing of the
  collections is the one call that can raise here, and \<open>list_collections_error\<close> is
  the message of that exception when it does.
\<close>

record test_response =
  tr_backend :: string
  tr_database :: string
  tr_database_url :: "string option"
  tr_database_name :: "string option"
  tr_connection_status :: string
  tr_collections :: "string list"

definition list_collection_names :: "database \<Rightarrow> string list" where
  "list_collection_names db =
     (if invoicesequence db = None then [] else [''invoicesequence'']) @
     (if order_coll db = [] then [] else [''order''])"

definition test_database :: "env \<Rightarrow> database option \<Rightarrow> test_response" where
  "test_database e dbo =
     (let response = \<lparr>tr_backend = check_mark @ '' Running'',
                      tr_database = cross_mark @ '' Not Available'',
                      tr_database_url = None, tr_database_name = None,
                      tr_connection_status = ''Not Connected'', tr_collections = []\<rparr>
      in case dbo of
           None \<Rightarrow> response\<lparr>tr_database := warning_sign @ '' Available but not initialized''\<rparr>
         | Some db \<Rightarrow>
             (let response = response
                    \<lparr>tr_database := check_mark @ '' Available'',
                     tr_database_url := Some (if database_url e = None \<or> database_url e = Some ''''
                                              then cross_mark @ '' Not Set'' else check_mark @ '' Set''),
                     tr_database_name := Some (name db),
                     tr_connection_status := ''Connected''\<rparr>
              in case list_collections_error e of
                   None \<Rightarrow> response\<lparr>tr_collections := list_collection_names db,
                                     tr_database := check_mark @ '' Connected & Working''\<rparr>
                 | Some msg \<Rightarrow> response\<lparr>tr_database := warning_sign @ '' Connected but Error: '' @ take 80 msg\<rparr>))"

definition order_total :: "float_ops \<Rightarrow> CartItem list \<Rightarrow> failure + pyfloat" where
  "order_total fl its =
     (if list_all (\<lambda>i. int_fits_float (quantity i)) its
      then Inr (float_sum fl (map (\<lambda>i. float_mul fl (price i) (float_of_int fl (quantity i))) its))
      else Inl (Unhandled ''OverflowError''))"

record create_order_response =
  co_id :: string
  co_order_id :: string
  co_amount :: pyfloat
  co_currency :: string
  co_status :: string

definition create_order ::
  "float_ops \<Rightarrow> env \<Rightarrow> OrderIn \<Rightarrow> database option \<Rightarrow> (failure + create_order_response) \<times> database option" where
  "create_order fl e payload dbo =
     (case dbo of
        None \<Rightarrow> (Inl (HTTPException 500 ''Database not configured''), None)
      | Some db \<Rightarrow>
          (case order_total fl (oi_items payload) of
             Inl err \<Rightarrow> (Inl err, Some db)
           | Inr amt \<Rightarrow>
               (let doc = \<lparr>doc_id = ObjectId (new_object_id e),
                           user_email = Some (oi_user_email payload),
                           items = Some (oi_items payload),
                           amount = Some amt,
                           status = ''created'',
                           created_at = utc_now_first e,
                           updated_at = utc_now_second e,
                           order_id = None, payment_id = None, invoice_number = None\<rparr>
                in case insert_one doc (order_coll db) of
                     Inl err \<Rightarrow> (Inl err, Some db)
                   | Inr coll \<Rightarrow>
                       (let inserted_id = doc_id doc;
                            gateway_order_id = ''order_'' @ last_chars 8 (str_id inserted_id);
                            coll' = update_one (\<lambda>d. doc_id d = inserted_id)
                                      (\<lambda>d. d\<lparr>order_id := Some gateway_order_id\<rparr>) coll
                        in (Inr \<lparr>co_id = str_id inserted_id, co_order_id = gateway_order_id,
                                 co_amount = amt, co_currency = ''INR'', co_status = ''created''\<rparr>,
                            Some (db\<lparr>order_coll := coll'\<rparr>))))))"

text \<open>The endpoint \<open>POST /api/orders\<close>: the validation of the body, then the handler.\<close>

definition post_api_orders ::
  "float_ops \<Rightarrow> env \<Rightarrow> OrderIn \<Rightarrow> database option \<Rightarrow> (failure + create_order_response) \<times> database option" where
  "post_api_orders fl e body dbo =
     (case validate_OrderIn main_CartItem_constraints body of
        Inl err \<Rightarrow> (Inl err, dbo)
      | Inr payload \<Rightarrow> create_order fl e payload dbo)"

record verify_response =
  vr_status :: string
  vr_invoice_number :: string

text \<open>The update document \<open>$set\<close> of \<open>verify_payment\<close>.\<close>

definition set_paid :: "string \<Rightarrow> string \<Rightarrow> int \<Rightarrow> order_doc \<Rightarrow> order_doc" where
  "set_paid pid number now d =
     d\<lparr>status := ''paid'', payment_id := Some pid, invoice_number := Some number,
       updated_at := now\<rparr>"

definition verify_payment ::
  "env \<Rightarrow> VerifyPaymentIn \<Rightarrow> database option \<Rightarrow> (failure + verify_response) \<times> database option" where
  "verify_payment e payload dbo =
     (case dbo of
        None \<Rightarrow> (Inl (HTTPException 500 ''Database not configured''), None)
      | Some db \<Rightarrow>
          (case find_one (\<lambda>d. order_id d = Some (vp_order_id payload)) (order_coll db) of
             None \<Rightarrow> (Inl (HTTPException 404 ''Order not found''), Some db)
           | Some order \<Rightarrow>
               (let (number, db') = generate_invoice_number (local_year e) db;
                    pid = (if vp_payment_id payload = None \<or> vp_payment_id payload = Some []
                           then ''pay_'' @ last_chars 6 (str_id (doc_id order))
                           else the (vp_payment_id payload));
                    coll = update_one (\<lambda>d. doc_id d = doc_id order)
                             (set_paid pid number (utc_now_first e)) (order_coll db')
                in (Inr \<lparr>vr_status = ''paid'', vr_invoice_number = number\<rparr>,
                    Some (db'\<lparr>order_coll := coll\<rparr>)))))"

definition list_orders ::
  "string \<Rightarrow> database option \<Rightarrow> (failure + order_doc list) \<times> database option" where
  "list_orders email dbo =
     (case dbo of
        None \<Rightarrow> (Inl (HTTPException 500 ''Database not configured''), None)
      | Some db \<Rightarrow>
          (let cur = take 50 (sort_descending created_at
                                (filter (\<lambda>d. user_email d = Some email) (order_coll db)));
               orders = map (\<lambda>d. d\<lparr>doc_id := IdStr (str_id (doc_id d))\<rparr>) cur
           in (Inr orders, Some db)))"

text \<open>
  The invoice page: the f-string of \<open>get_invoice\<close>, cut at its six placeholders.
\<close>

definition html_1 :: string where
  \<open>html_1 =
     nl @
     ''    <html>'' @ nl @
     ''      <head>'' @ nl @
     ''        <meta charset='utf-8' />'' @ nl @
     ''        <title>Invoice ''\<close>

definition html_2 :: string where
  \<open>html_2 =
     ''</title>'' @ nl @
     ''        <style>'' @ nl @
     ''          body { font-family: -apple-system, Segoe UI, Roboto, sans-serif; padding: 24px; }'' @ nl @
     ''          .card { max-width: 720px; margin: 0 auto; border: 1px solid #eee; border-radius: 10px; overflow: hidden; }'' @ nl @
     ''          .header { background: #0ea5e9; color: white; padding: 16px 20px; }'' @ nl @
     ''          .section { padding: 16px 20px; }'' @ nl @
     ''          table { width: 100%; border-collapse: collapse; }'' @ nl @
     ''          th, td { padding: 8px; border-bottom: 1px solid #f1f5f9; }'' @ nl @
     ''          th { text-align: left; background:#f8fafc; }'' @ nl @
     ''          .right { text-align:right; }'' @ nl @
     ''        </style>'' @ nl @
     ''      </head>'' @ nl @
     ''      <body>'' @ nl @
     ''        <div class="card">'' @ nl @
     ''          <div class="header">'' @ nl @
     ''            <h2>TRI Invoice</h2>'' @ nl @
     ''            <div>''\<close>

definition html_3 :: string where
  \<open>html_3 =
     ''</div>'' @ nl @
     ''          </div>'' @ nl @
     ''          <div class="section">'' @ nl @
     ''            <div><strong>Billed To:</strong> ''\<close>

definition html_4 :: string where
  \<open>html_4 =
     ''</div>'' @ nl @
     ''            <div><strong>Date:</strong> ''\<close>

definition html_5 :: string where
  \<open>html_5 =
     ''</div>'' @ nl @
     ''          </div>'' @ nl @
     ''          <div class="section">'' @ nl @
     ''            <table>'' @ nl @
     ''              <thead>'' @ nl @
     ''                <tr><th>Description</th><th style='text-align:center'>Qty</th><th class='right'>Rate</th><th class='right'>Amount</th></tr>'' @ nl @
     ''              </thead>'' @ nl @
     ''              <tbody>'' @ nl @
     ''                ''\<close>

definition html_6 :: string where
  \<open>html_6 =
     nl @
     ''                <tr><td colspan="3" class='right'><strong>Total</strong></td><td class='right'><strong>'' @ rupee\<close>

definition html_7 :: string where
  \<open>html_7 =
     ''</strong></td></tr>'' @ nl @
     ''              </tbody>'' @ nl @
     ''            </table>'' @ nl @
     ''          </div>'' @ nl @
     ''        </div>'' @ nl @
     ''      </body>'' @ nl @
     ''    </html>'' @ nl @
     ''    ''\<close>

definition item_row :: "float_ops \<Rightarrow> CartItem \<Rightarrow> string" where
  \<open>item_row fl i =
     ''<tr><td>'' @ title i @ ''</td><td style='text-align:center'>'' @ str_int (quantity i) @
     ''</td><td style='text-align:right'>'' @ rupee @ format_2f fl (price i) @
     ''</td><td style='text-align:right'>'' @ rupee @
     format_2f fl (float_mul fl (price i) (float_of_int fl (quantity i))) @ ''</td></tr>''\<close>

definition get_invoice ::
  "float_ops \<Rightarrow> env \<Rightarrow> string \<Rightarrow> database option \<Rightarrow> (failure + string) \<times> database option" where
  "get_invoice fl e oid dbo =
     (case dbo of
        None \<Rightarrow> (Inl (HTTPException 500 ''Database not configured''), None)
      | Some db \<Rightarrow>
          (case find_one (\<lambda>d. order_id d = Some oid) (order_coll db) of
             None \<Rightarrow> (Inl (HTTPException 404 ''Order not found''), Some db)
           | Some order \<Rightarrow>
               (let inv = (case invoice_number order of None \<Rightarrow> ''PENDING'' | Some s \<Rightarrow> s)
                in if \<not> list_all (\<lambda>i. int_fits_float (quantity i)) (items_of order)
                   then (Inl (Unhandled ''OverflowError''), Some db)
                   else
                     (let items_html = concat (map (item_row fl) (items_of order));
                          html = html_1 @ inv @ html_2 @ inv @ html_3 @
                                 (case user_email order of None \<Rightarrow> ''None'' | Some s \<Rightarrow> s) @
                                 html_4 @ local_date e @ html_5 @ items_html @ html_6 @
                                 (case amount order of None \<Rightarrow> ''0.00'' | Some a \<Rightarrow> format_2f fl a) @
                                 html_7
                      in (Inr html, Some db)))))"

record email_response =
  er_status :: string
  er_to :: string

definition send_email :: "EmailIn \<Rightarrow> email_response" where
  "send_email payload = \<lparr>er_status = ''queued'', er_to = em_to payload\<rparr>"

text \<open>Every request the program serves, and the one step that serves it.\<close>

datatype request =
  ReadRoot | Hello | TestDatabase | CreateOrder OrderIn | VerifyPayment VerifyPaymentIn
  | ListOrders string | GetInvoice string | SendEmail EmailIn

datatype response =
  Message string | Diagnostics test_response | Created create_order_response
  | Paid verify_response | Orders "order_doc list" | Html string | Queued email_response

fun handle ::
  "float_ops \<Rightarrow> env \<Rightarrow> request \<Rightarrow> database option \<Rightarrow> (failure + response) \<times> database option" where
  "handle fl e ReadRoot dbo = (Inr (Message read_root), dbo)"
| "handle fl e Hello dbo = (Inr (Message hello), dbo)"
| "handle fl e TestDatabase dbo = (Inr (Diagnostics (test_database e dbo)), dbo)"
| "handle fl e (CreateOrder body) dbo = apfst (map_sum id Created) (post_api_orders fl e body dbo)"
| "handle fl e (VerifyPayment payload) dbo = apfst (map_sum id Paid) (verify_payment e payload dbo)"
| "handle fl e (ListOrders email) dbo = apfst (map_sum id Orders) (list_orders email dbo)"
| "handle fl e (GetInvoice oid) dbo = apfst (map_sum id Html) (get_invoice fl e oid dbo)"
| "handle fl e (SendEmail payload) dbo = (Inr (Queued (send_email payload)), dbo)"

section \<open>A concrete store\<close>

text \<open>
  An order as \<open>create_order\<close> leaves it (two items at 10.5, amount 21.0), a store that
  holds this order and no counter yet, and the readings of one request.
\<close>

definition example_order :: order_doc where
  "example_order =
     \<lparr>doc_id = ObjectId 0x65f1a2b3c4d5e6f708091a2b,
      user_email = Some ''a@example.com'',
      items = Some [\<lparr>product_id = ''p1'', title = ''Widget'', quantity = 2,
                     price = 0x4025000000000000\<rparr>],
      amount = Some 0x4035000000000000,
      status = ''created'',
      created_at = 1700000000000,
      updated_at = 1700000000000,
      order_id = Some ''order_08091a2b'',
      payment_id = None,
      invoice_number = None\<rparr>"

definition example_db :: database where
  "example_db = \<lparr>name = ''tri'', invoicesequence = None, order_coll = [example_order]\<rparr>"

definition example_env :: env where
  "example_env =
     \<lparr>local_year = 2024, local_date = ''2024-03-13'',
      utc_now_first = 1710000000000, utc_now_second = 1710000000001,
      new_object_id = 0x65f1a2b3c4d5e6f708091a2c,
      database_url = Some ''mongodb://localhost'',
      list_collections_error = None\<rparr>"

section \<open>Properties of the formatting\<close>

lemma digit_char_cases:
  "d < 10 \<Longrightarrow> d = 0 \<or> d = 1 \<or> d = 2 \<or> d = 3 \<or> d = 4 \<or> d = 5 \<or> d = 6 \<or> d = 7 \<or> d = 8 \<or> d = (9::nat)"
  by arith

lemma digit_val_digit_char: "d < 10 \<Longrightarrow> digit_val (digit_char d) = d"
  using digit_char_cases [of d] by (auto simp: digit_val_def digit_char_def)

lemma digit_char_not_slash: "d < 10 \<Longrightarrow> digit_char d \<noteq> CHR ''/''"
  using digit_char_cases [of d] by (auto simp: digit_char_def)

lemma digit_char_not_minus: "d < 10 \<Longrightarrow> digit_char d \<noteq> CHR ''-''"
  using digit_char_cases [of d] by (auto simp: digit_char_def)

lemma nat_of_digits_snoc: "nat_of_digits (s @ [c]) = 10 * nat_of_digits s + digit_val c"
  by (simp add: nat_of_digits_def)

lemma nat_of_digits_digits: "nat_of_digits (digits n) = n"
proof (induction n rule: digits.induct)
  case (1 n)
  show ?case
  proof (cases "n < 10")
    case True
    then show ?thesis
      by (simp add: digits.simps [of n] nat_of_digits_def digit_val_digit_char)
  next
    case False
    with 1 have "nat_of_digits (digits (n div 10)) = n div 10" by simp
    with False show ?thesis
      by (simp add: digits.simps [of n] nat_of_digits_snoc digit_val_digit_char)
  qed
qed

lemma digits_not_Nil: "digits n \<noteq> []"
  by (subst digits.simps) simp

lemma digits_no_slash: "CHR ''/'' \<notin> set (digits n)"
proof (induction n rule: digits.induct)
  case (1 n)
  show ?case
  proof (cases "n < 10")
    case True
    then show ?thesis
      using digit_char_not_slash [of n] by (auto simp: digits.simps [of n])
  next
    case False
    with 1 have "CHR ''/'' \<notin> set (digits (n div 10))" by simp
    with False show ?thesis
      using digit_char_not_slash [of "n mod 10"] by (auto simp: digits.simps [of n])
  qed
qed

lemma digits_no_minus: "CHR ''-'' \<notin> set (digits n)"
proof (induction n rule: digits.induct)
  case (1 n)
  show ?case
  proof (cases "n < 10")
    case True
    then show ?thesis
      using digit_char_not_minus [of n] by (auto simp: digits.simps [of n])
  next
    case False
    with 1 have "CHR ''-'' \<notin> set (digits (n div 10))" by simp
    with False show ?thesis
      using digit_char_not_minus [of "n mod 10"] by (auto simp: digits.simps [of n])
  qed
qed

lemma nat_of_digits_zeros: "nat_of_digits (replicate k (CHR ''0'') @ s) = nat_of_digits s"
proof -
  have "foldl (\<lambda>a c. 10 * a + digit_val c) 0 (replicate k (CHR ''0'')) = 0"
    by (induction k) (simp_all add: digit_val_def)
  then show ?thesis by (simp add: nat_of_digits_def)
qed

lemma int_of_str_format_05d: "int_of_str (format_05d n) = n"
proof (cases "n < 0")
  case True
  then show ?thesis
    by (simp add: format_05d_def int_of_str_def Let_def nat_of_digits_zeros nat_of_digits_digits)
next
  case False
  let ?s = "replicate (5 - length (digits (nat n))) (CHR ''0'') @ digits (nat n)"
  from False have eq: "format_05d n = ?s"
    by (simp add: format_05d_def Let_def)
  have ne: "?s \<noteq> []" by (simp add: digits_not_Nil)
  have "hd ?s \<noteq> CHR ''-''"
  proof (cases "5 - length (digits (nat n))")
    case 0
    then show ?thesis
      using digits_no_minus [of "nat n"] digits_not_Nil [of "nat n"]
      by (cases "digits (nat n)") auto
  next
    case (Suc k)
    then show ?thesis by simp
  qed
  with ne have "int_of_str ?s = int (nat_of_digits ?s)"
    by (cases ?s) (auto simp: int_of_str_def)
  with False show ?thesis
    by (simp add: eq nat_of_digits_zeros nat_of_digits_digits)
qed

lemma format_05d_no_slash: "CHR ''/'' \<notin> set (format_05d n)"
  using digits_no_slash [of "nat \<bar>n\<bar>"] by (auto simp: format_05d_def Let_def)

lemma length_format_05d: "length (format_05d n) = max 5 (length (str_int n))"
  by (cases "n < 0") (auto simp: format_05d_def str_int_def Let_def abs_if max_def)

lemma numeric_suffix_invoice:
  "numeric_suffix (''TRI/'' @ y @ ''/'' @ format_05d n) = n"
proof -
  have "rev (''TRI/'' @ y @ ''/'' @ format_05d n) = rev (format_05d n) @ CHR ''/'' # rev (''TRI/'' @ y)"
    by simp
  moreover have "takeWhile (\<lambda>c. c \<noteq> CHR ''/'') (rev (format_05d n) @ CHR ''/'' # rev (''TRI/'' @ y))
      = rev (format_05d n)"
    using format_05d_no_slash [of n] by (intro takeWhile_tail [THEN trans] takeWhile_eq_all_conv [THEN iffD2]) auto
  ultimately show ?thesis
    by (simp add: numeric_suffix_def int_of_str_format_05d del: rev_append rev.simps append.simps)
qed

section \<open>The allocator\<close>

lemma generate_invoice_number_eq:
  "generate_invoice_number y db =
     (''TRI/'' @ str_int y @ ''/'' @ format_05d (counter_value db + 1),
      db\<lparr>invoicesequence := Some \<lparr>last_number = Some (counter_value db + 1)\<rparr>\<rparr>)"
  by (simp add: generate_invoice_number_def find_one_and_update_inc_def counter_value_def Let_def
      split: option.splits)

lemma counter_value_generate:
  "counter_value (snd (generate_invoice_number y db)) = counter_value db + 1"
  by (simp add: generate_invoice_number_eq counter_value_def)

lemma numeric_suffix_generate:
  "numeric_suffix (fst (generate_invoice_number y db)) = counter_value db + 1"
  by (simp only: generate_invoice_number_eq fst_conv numeric_suffix_invoice)

lemma counter_value_order_coll [simp]:
  "counter_value (db\<lparr>order_coll := c\<rparr>) = counter_value db"
  by (simp add: counter_value_def)

lemma run_Allocate:
  "run (Allocate y # ops) db =
     (fst (generate_invoice_number y db) # fst (run ops (snd (generate_invoice_number y db))),
      snd (run ops (snd (generate_invoice_number y db))))"
  by (simp add: case_prod_beta)

lemma upto_first: "[c + 1 .. c + int (Suc m)] = (c + 1) # [c + 1 + 1 .. c + 1 + int m]"
proof -
  have "c + 1 \<le> c + int (Suc m)" by simp
  then have "[c + 1 .. c + int (Suc m)] = (c + 1) # [c + 1 + 1 .. c + int (Suc m)]"
    by (rule upto_rec1)
  moreover have "c + int (Suc m) = c + 1 + int m" by simp
  ultimately show ?thesis by (simp only:)
qed

lemma run_suffixes:
  "map numeric_suffix (fst (run ops db)) =
     [counter_value db + 1 .. counter_value db + int (length (fst (run ops db)))]"
proof (induction ops arbitrary: db)
  case Nil
  then show ?case by simp
next
  case (Cons op ops)
  show ?case
  proof (cases op)
    case (Allocate y)
    let ?db' = "snd (generate_invoice_number y db)"
    let ?m = "length (fst (run ops ?db'))"
    have ih: "map numeric_suffix (fst (run ops ?db')) =
        [counter_value db + 1 + 1 .. counter_value db + 1 + int ?m]"
      using Cons.IH [of ?db'] by (simp only: counter_value_generate)
    have len: "length (fst (run (op # ops) db)) = Suc ?m"
      by (simp only: Allocate run_Allocate fst_conv length_Cons)
    have "map numeric_suffix (fst (run (op # ops) db)) =
        (counter_value db + 1) # map numeric_suffix (fst (run ops ?db'))"
      by (simp only: Allocate run_Allocate fst_conv list.map numeric_suffix_generate)
    also have "\<dots> = [counter_value db + 1 .. counter_value db + int (Suc ?m)]"
      by (simp only: ih upto_first)
    finally show ?thesis by (simp only: len)
  next
    case (OrderOp f)
    then show ?thesis
      using Cons.IH [of "db\<lparr>order_coll := f (order_coll db)\<rparr>"] by simp
  qed
qed

lemma run_length: "length (fst (run ops db)) = length (filter is_allocation ops)"
proof (induction ops arbitrary: db)
  case Nil
  then show ?case by simp
next
  case (Cons op ops)
  then show ?case by (cases op) (simp_all add: run_Allocate del: run.simps(2))
qed

lemma run_counter:
  "counter_value (snd (run ops db)) = counter_value db + int (length (fst (run ops db)))"
proof (induction ops arbitrary: db)
  case Nil
  then show ?case by simp
next
  case (Cons op ops)
  show ?case
  proof (cases op)
    case (Allocate y)
    then show ?thesis
      using Cons.IH [of "snd (generate_invoice_number y db)"]
      by (simp add: run_Allocate counter_value_generate del: run.simps(2))
  next
    case (OrderOp f)
    then show ?thesis
      using Cons.IH [of "db\<lparr>order_coll := f (order_coll db)\<rparr>"] by simp
  qed
qed

lemma run_distinct: "distinct (fst (run ops db))"
proof -
  have "distinct (map numeric_suffix (fst (run ops db)))"
    by (simp only: run_suffixes distinct_upto)
  then show ?thesis by (simp add: distinct_map)
qed

text \<open>
  C1.  An allocation is the one store operation \<open>find_one_and_update_inc\<close>: it adds
  exactly 1 to the counter and returns the value after the increment.  In every
  interleaving of allocations with the other operations of the store, every allocation
  returns, the numbers returned are the consecutive integers following the counter's
  starting value, in the order of the allocations, and no identifier is returned twice.
\<close>

theorem allocation_increments_by_one:
  "fst (generate_invoice_number y db) = ''TRI/'' @ str_int y @ ''/'' @ format_05d (counter_value db + 1)
   \<and> counter_value (snd (generate_invoice_number y db)) = counter_value db + 1
   \<and> numeric_suffix (fst (generate_invoice_number y db)) = counter_value (snd (generate_invoice_number y db))
   \<and> length (fst (run ops db)) = length (filter is_allocation ops)
   \<and> map numeric_suffix (fst (run ops db)) =
       [counter_value db + 1 .. counter_value db + int (length (filter is_allocation ops))]
   \<and> distinct (fst (run ops db))
   \<and> counter_value (snd (run ops db)) = counter_value db + int (length (filter is_allocation ops))"
proof (intro conjI)
  show "fst (generate_invoice_number y db) = ''TRI/'' @ str_int y @ ''/'' @ format_05d (counter_value db + 1)"
    by (simp only: generate_invoice_number_eq fst_conv)
  show "counter_value (snd (generate_invoice_number y db)) = counter_value db + 1"
    by (rule counter_value_generate)
  show "numeric_suffix (fst (generate_invoice_number y db)) = counter_value (snd (generate_invoice_number y db))"
    by (simp only: numeric_suffix_generate counter_value_generate)
  show "length (fst (run ops db)) = length (filter is_allocation ops)"
    by (rule run_length)
  show "map numeric_suffix (fst (run ops db)) =
       [counter_value db + 1 .. counter_value db + int (length (filter is_allocation ops))]"
    using run_suffixes [of ops db] by (simp only: run_length)
  show "distinct (fst (run ops db))"
    by (rule run_distinct)
  show "counter_value (snd (run ops db)) = counter_value db + int (length (filter is_allocation ops))"
    using run_counter [of ops db] by (simp only: run_length)
qed

lemma replicate_numeral_Cons: "replicate (numeral k) x = x # replicate (pred_numeral k) x"
  by (simp add: numeral_eq_Suc)

lemma format_05d_nonneg:
  "0 \<le> n \<Longrightarrow> format_05d n = replicate (5 - length (digits (nat n))) (CHR ''0'') @ digits (nat n)"
  by (simp add: format_05d_def Let_def)

lemma digits_100000: "digits 100000 = ''100000''"
  by (simp add: digits.simps digit_char_def)

lemma format_05d_100000: "format_05d 100000 = ''100000''"
  by (simp add: format_05d_nonneg digits_100000)

lemma format_05d_1: "format_05d 1 = ''00001''"
  by (simp add: format_05d_nonneg digits.simps digit_char_def replicate_numeral_Cons)

text \<open>
  C2.  The identifier an allocation returns is \<open>TRI/\<close>, the year, a slash and the
  counter's value after the increment in the format \<open>05d\<close>.  That field reads back as
  the whole number, it is as long as the number's numeral and never shorter than five
  characters, and for a number that is not negative it is the numeral preceded by zeros.
  An allocation at counter value 99999 returns the suffix \<open>100000\<close>.
\<close>

theorem invoice_identifier_format:
  "fst (generate_invoice_number y db) =
      ''TRI/'' @ str_int y @ ''/'' @ format_05d (counter_value db + 1)
   \<and> int_of_str (format_05d n) = n
   \<and> length (format_05d n) = max 5 (length (str_int n))
   \<and> (0 \<le> n \<longrightarrow>
        format_05d n = replicate (5 - length (digits (nat n))) (CHR ''0'') @ digits (nat n))
   \<and> (counter_value db = 99999 \<longrightarrow>
        fst (generate_invoice_number y db) = ''TRI/'' @ str_int y @ ''/100000'')"
proof (intro conjI impI)
  show "fst (generate_invoice_number y db) =
      ''TRI/'' @ str_int y @ ''/'' @ format_05d (counter_value db + 1)"
    by (simp only: generate_invoice_number_eq fst_conv)
  show "int_of_str (format_05d n) = n"
    by (rule int_of_str_format_05d)
  show "length (format_05d n) = max 5 (length (str_int n))"
    by (rule length_format_05d)
  show "format_05d n = replicate (5 - length (digits (nat n))) (CHR ''0'') @ digits (nat n)"
    if "0 \<le> n"
    using that by (rule format_05d_nonneg)
  show "fst (generate_invoice_number y db) = ''TRI/'' @ str_int y @ ''/100000''"
    if "counter_value db = 99999"
    using that by (simp add: generate_invoice_number_eq format_05d_100000)
qed

theorem invoice_identifier_format_witness:
  "(0::int) \<le> 100000
   \<and> counter_value \<lparr>name = ''tri'', invoicesequence = Some \<lparr>last_number = Some 99999\<rparr>, order_coll = []\<rparr> = 99999
   \<and> fst (generate_invoice_number 2024
        \<lparr>name = ''tri'', invoicesequence = Some \<lparr>last_number = Some 99999\<rparr>, order_coll = []\<rparr>)
      = ''TRI/2024/100000''
   \<and> format_05d 100000 = ''100000''
   \<and> int_of_str ''100000'' = 100000"
  using invoice_identifier_format [of 2024
      "\<lparr>name = ''tri'', invoicesequence = Some \<lparr>last_number = Some 99999\<rparr>, order_coll = []\<rparr>" 100000]
  by (simp add: counter_value_def str_int_def digits.simps digit_char_def int_of_str_def
      nat_of_digits_def digit_val_def)

text \<open>
  C4.  The year is a label only: it appears in the identifier and nowhere else.  The
  store an allocation leaves and the number it returns do not depend on the year, and an
  allocation made in another year continues the same count.
\<close>

theorem counter_shared_across_years:
  "snd (generate_invoice_number y db) = snd (generate_invoice_number y' db)
   \<and> fst (generate_invoice_number y db) =
        ''TRI/'' @ str_int y @ ''/'' @ format_05d (counter_value db + 1)
   \<and> numeric_suffix (fst (generate_invoice_number y db)) =
        numeric_suffix (fst (generate_invoice_number y' db))
   \<and> numeric_suffix (fst (generate_invoice_number y' (snd (generate_invoice_number y db)))) =
        numeric_suffix (fst (generate_invoice_number y db)) + 1
   \<and> counter_value db < counter_value (snd (generate_invoice_number y db))"
proof (intro conjI)
  show "snd (generate_invoice_number y db) = snd (generate_invoice_number y' db)"
    by (simp only: generate_invoice_number_eq snd_conv)
  show "fst (generate_invoice_number y db) =
        ''TRI/'' @ str_int y @ ''/'' @ format_05d (counter_value db + 1)"
    by (simp only: generate_invoice_number_eq fst_conv)
  show "numeric_suffix (fst (generate_invoice_number y db)) =
        numeric_suffix (fst (generate_invoice_number y' db))"
    by (simp only: numeric_suffix_generate)
  show "numeric_suffix (fst (generate_invoice_number y' (snd (generate_invoice_number y db)))) =
        numeric_suffix (fst (generate_invoice_number y db)) + 1"
    by (simp only: numeric_suffix_generate counter_value_generate)
  show "counter_value db < counter_value (snd (generate_invoice_number y db))"
    by (simp add: counter_value_generate)
qed

section \<open>The collection of orders\<close>

lemma find_one_None_iff: "find_one p xs = None \<longleftrightarrow> (\<forall>x\<in>set xs. \<not> p x)"
  by (induction xs) auto

lemma find_one_Some_D: "find_one p xs = Some x \<Longrightarrow> x \<in> set xs \<and> p x"
  by (induction xs) (auto split: if_splits)

lemma map_update_one:
  "(\<And>x. g (f x) = g x) \<Longrightarrow> map g (update_one p f xs) = map g xs"
  by (induction xs) auto

lemma length_update_one: "length (update_one p f xs) = length xs"
  by (induction xs) auto

text \<open>
  When the documents are told apart by \<open>k\<close> (their \<open>_id\<close>), the update through the
  key of the document that a query found changes that document, and the query finds the
  changed document afterwards, provided the change keeps the key and the query's match.
\<close>

lemma find_one_update_one:
  assumes "find_one q xs = Some x" and "distinct (map k xs)"
    and "\<And>y. q (f y) = q y" and "\<And>y. k (f y) = k y"
  shows "find_one q (update_one (\<lambda>d. k d = k x) f xs) = Some (f x)"
  using assms(1,2)
proof (induction xs)
  case Nil
  then show ?case by simp
next
  case (Cons a xs)
  show ?case
  proof (cases "q a")
    case True
    with Cons.prems have "a = x" by simp
    with True show ?thesis by (simp add: assms(3))
  next
    case False
    with Cons.prems have fx: "find_one q xs = Some x" by simp
    then have "x \<in> set xs" by (simp add: find_one_Some_D)
    with Cons.prems(2) have "k a \<noteq> k x" by (auto simp: image_iff)
    with False fx Cons.IH Cons.prems(2) show ?thesis by simp
  qed
qed

section \<open>Payment verification\<close>

lemma verify_payment_found:
  assumes "find_one (\<lambda>d. order_id d = Some (vp_order_id p)) (order_coll db) = Some ord"
  shows "verify_payment e p (Some db) =
     (Inr \<lparr>vr_status = ''paid'',
           vr_invoice_number = ''TRI/'' @ str_int (local_year e) @ ''/'' @ format_05d (counter_value db + 1)\<rparr>,
      Some (db\<lparr>invoicesequence := Some \<lparr>last_number = Some (counter_value db + 1)\<rparr>,
               order_coll := update_one (\<lambda>d. doc_id d = doc_id ord)
                  (set_paid
                     (if vp_payment_id p = None \<or> vp_payment_id p = Some []
                      then ''pay_'' @ last_chars 6 (str_id (doc_id ord)) else the (vp_payment_id p))
                     (''TRI/'' @ str_int (local_year e) @ ''/'' @ format_05d (counter_value db + 1))
                     (utc_now_first e))
                  (order_coll db)\<rparr>))"
  using assms
  by (simp add: verify_payment_def generate_invoice_number_eq Let_def)

lemma verify_payment_not_found:
  assumes "find_one (\<lambda>d. order_id d = Some (vp_order_id p)) (order_coll db) = None"
  shows "verify_payment e p (Some db) = (Inl (HTTPException 404 ''Order not found''), Some db)"
  using assms by (simp add: verify_payment_def)

lemma set_paid_fields [simp]:
  "order_id (set_paid pid n t d) = order_id d"
  "doc_id (set_paid pid n t d) = doc_id d"
  "status (set_paid pid n t d) = ''paid''"
  "invoice_number (set_paid pid n t d) = Some n"
  "payment_id (set_paid pid n t d) = Some pid"
  "updated_at (set_paid pid n t d) = t"
  by (simp_all add: set_paid_def)

lemma invoice_identifiers_differ:
  "m \<noteq> n \<Longrightarrow> ''TRI/'' @ y @ ''/'' @ format_05d m \<noteq> ''TRI/'' @ y' @ ''/'' @ format_05d n"
  using numeric_suffix_invoice [of y m] numeric_suffix_invoice [of y' n] by metis

text \<open>One verification of an order that the lookup finds, in a store with unique \<open>_id\<close>s.\<close>

lemma verify_payment_paid:
  assumes found: "find_one (\<lambda>d. order_id d = Some (vp_order_id p)) (order_coll db) = Some ord"
    and ids: "distinct (map doc_id (order_coll db))"
  shows "\<exists>db' ord'.
      verify_payment e p (Some db) =
        (Inr \<lparr>vr_status = ''paid'',
              vr_invoice_number =
                ''TRI/'' @ str_int (local_year e) @ ''/'' @ format_05d (counter_value db + 1)\<rparr>,
         Some db')
      \<and> find_one (\<lambda>d. order_id d = Some (vp_order_id p)) (order_coll db') = Some ord'
      \<and> doc_id ord' = doc_id ord \<and> status ord' = ''paid''
      \<and> invoice_number ord' =
          Some (''TRI/'' @ str_int (local_year e) @ ''/'' @ format_05d (counter_value db + 1))
      \<and> counter_value db' = counter_value db + 1
      \<and> distinct (map doc_id (order_coll db'))"
proof -
  let ?n = "''TRI/'' @ str_int (local_year e) @ ''/'' @ format_05d (counter_value db + 1)"
  let ?pid = "if vp_payment_id p = None \<or> vp_payment_id p = Some []
      then ''pay_'' @ last_chars 6 (str_id (doc_id ord)) else the (vp_payment_id p)"
  let ?f = "set_paid ?pid ?n (utc_now_first e)"
  let ?coll = "update_one (\<lambda>d. doc_id d = doc_id ord) ?f (order_coll db)"
  let ?db' = "db\<lparr>invoicesequence := Some \<lparr>last_number = Some (counter_value db + 1)\<rparr>,
      order_coll := ?coll\<rparr>"
  have r: "verify_payment e p (Some db) = (Inr \<lparr>vr_status = ''paid'', vr_invoice_number = ?n\<rparr>, Some ?db')"
    using found by (rule verify_payment_found)
  have f: "find_one (\<lambda>d. order_id d = Some (vp_order_id p)) ?coll = Some (?f ord)"
    using found ids by (rule find_one_update_one) simp_all
  have "map doc_id ?coll = map doc_id (order_coll db)"
    by (rule map_update_one) simp
  with ids have d: "distinct (map doc_id ?coll)" by simp
  have c: "counter_value ?db' = counter_value db + 1"
    by (simp add: counter_value_def)
  show ?thesis
    apply (rule exI [of _ ?db'])
    apply (rule exI [of _ "?f ord"])
    using r f d c by simp
qed

text \<open>
  C5.  When no order of the store carries the \<open>order_id\<close> of the request, the
  verification answers 404 \<open>Order not found\<close> and leaves the store as it was: the
  counter document in particular is the same, so no number has been allocated.
\<close>

theorem verify_payment_unknown_order:
  assumes "\<forall>d\<in>set (order_coll db). order_id d \<noteq> Some (vp_order_id p)"
  shows "verify_payment e p (Some db) = (Inl (HTTPException 404 ''Order not found''), Some db)
    \<and> map_option invoicesequence (snd (verify_payment e p (Some db))) = Some (invoicesequence db)
    \<and> map_option counter_value (snd (verify_payment e p (Some db))) = Some (counter_value db)"
proof -
  from assms have "find_one (\<lambda>d. order_id d = Some (vp_order_id p)) (order_coll db) = None"
    by (simp add: find_one_None_iff)
  then have "verify_payment e p (Some db) = (Inl (HTTPException 404 ''Order not found''), Some db)"
    by (rule verify_payment_not_found)
  then show ?thesis by simp
qed

theorem verify_payment_unknown_order_witness:
  "order_coll example_db = [example_order]
   \<and> order_id example_order = Some ''order_08091a2b''
   \<and> verify_payment example_env
        \<lparr>vp_order_id = ''order_ffffffff'', vp_payment_id = None, vp_signature = None\<rparr>
        (Some example_db)
      = (Inl (HTTPException 404 ''Order not found''), Some example_db)"
proof -
  let ?p = "\<lparr>vp_order_id = ''order_ffffffff'', vp_payment_id = None, vp_signature = None\<rparr>"
  have h: "\<forall>d\<in>set (order_coll example_db). order_id d \<noteq> Some (vp_order_id ?p)"
    by (simp add: example_db_def example_order_def)
  from verify_payment_unknown_order [OF h, of example_env]
  show ?thesis by (simp add: example_db_def example_order_def)
qed

text \<open>
  C6.  When the lookup finds an order, the verification allocates the next number,
  stores it in that order together with the status \<open>paid\<close> and returns both.  Nothing
  in the handler looks at the order's state: a second verification of the same
  \<open>order_id\<close> allocates the number after that, which differs from the first, and the
  order then carries the second number.
\<close>

theorem verify_payment_existing_order:
  assumes found: "find_one (\<lambda>d. order_id d = Some (vp_order_id p)) (order_coll db) = Some ord"
    and ids: "distinct (map doc_id (order_coll db))"
    and same: "vp_order_id p2 = vp_order_id p"
  shows "\<exists>db' ord' db'' ord''.
      verify_payment e p (Some db) =
        (Inr \<lparr>vr_status = ''paid'',
              vr_invoice_number =
                ''TRI/'' @ str_int (local_year e) @ ''/'' @ format_05d (counter_value db + 1)\<rparr>,
         Some db')
      \<and> find_one (\<lambda>d. order_id d = Some (vp_order_id p)) (order_coll db') = Some ord'
      \<and> doc_id ord' = doc_id ord \<and> status ord' = ''paid''
      \<and> invoice_number ord' =
          Some (''TRI/'' @ str_int (local_year e) @ ''/'' @ format_05d (counter_value db + 1))
      \<and> verify_payment e2 p2 (Some db') =
        (Inr \<lparr>vr_status = ''paid'',
              vr_invoice_number =
                ''TRI/'' @ str_int (local_year e2) @ ''/'' @ format_05d (counter_value db + 2)\<rparr>,
         Some db'')
      \<and> find_one (\<lambda>d. order_id d = Some (vp_order_id p)) (order_coll db'') = Some ord''
      \<and> doc_id ord'' = doc_id ord \<and> status ord'' = ''paid''
      \<and> invoice_number ord'' =
          Some (''TRI/'' @ str_int (local_year e2) @ ''/'' @ format_05d (counter_value db + 2))
      \<and> invoice_number ord'' \<noteq> invoice_number ord'"
proof -
  from verify_payment_paid [OF found ids, of e]
  obtain db' ord' where
    r1: "verify_payment e p (Some db) =
        (Inr \<lparr>vr_status = ''paid'',
              vr_invoice_number =
                ''TRI/'' @ str_int (local_year e) @ ''/'' @ format_05d (counter_value db + 1)\<rparr>,
         Some db')"
    and f1: "find_one (\<lambda>d. order_id d = Some (vp_order_id p)) (order_coll db') = Some ord'"
    and o1: "doc_id ord' = doc_id ord" "status ord' = ''paid''"
      "invoice_number ord' =
          Some (''TRI/'' @ str_int (local_year e) @ ''/'' @ format_05d (counter_value db + 1))"
    and c1: "counter_value db' = counter_value db + 1"
    and d1: "distinct (map doc_id (order_coll db'))"
    by blast
  from f1 same have f1': "find_one (\<lambda>d. order_id d = Some (vp_order_id p2)) (order_coll db') = Some ord'"
    by simp
  from verify_payment_paid [OF f1' d1, of e2]
  obtain db'' ord'' where
    r2: "verify_payment e2 p2 (Some db') =
        (Inr \<lparr>vr_status = ''paid'',
              vr_invoice_number =
                ''TRI/'' @ str_int (local_year e2) @ ''/'' @ format_05d (counter_value db' + 1)\<rparr>,
         Some db'')"
    and f2: "find_one (\<lambda>d. order_id d = Some (vp_order_id p2)) (order_coll db'') = Some ord''"
    and o2: "doc_id ord'' = doc_id ord'" "status ord'' = ''paid''"
      "invoice_number ord'' =
          Some (''TRI/'' @ str_int (local_year e2) @ ''/'' @ format_05d (counter_value db' + 1))"
    by blast
  have c2: "counter_value db' + 1 = counter_value db + 2"
    by (simp add: c1)
  have ne: "invoice_number ord'' \<noteq> invoice_number ord'"
    unfolding o1 o2 c2 option.inject
    by (rule invoice_identifiers_differ) simp
  show ?thesis
    apply (rule exI [of _ db'], rule exI [of _ ord'], rule exI [of _ db''], rule exI [of _ ord''])
    using r1 f1 o1 r2 f2 o2 ne unfolding c2 same by simp
qed

theorem verify_payment_existing_order_witness:
  "find_one (\<lambda>d. order_id d = Some ''order_08091a2b'') (order_coll example_db) = Some example_order
   \<and> distinct (map doc_id (order_coll example_db))
   \<and> (\<exists>db' db''.
        verify_payment example_env
          \<lparr>vp_order_id = ''order_08091a2b'', vp_payment_id = None, vp_signature = None\<rparr>
          (Some example_db)
        = (Inr \<lparr>vr_status = ''paid'', vr_invoice_number = ''TRI/2024/00001''\<rparr>, Some db')
      \<and> verify_payment example_env
          \<lparr>vp_order_id = ''order_08091a2b'', vp_payment_id = None, vp_signature = None\<rparr>
          (Some db')
        = (Inr \<lparr>vr_status = ''paid'', vr_invoice_number = ''TRI/2024/00002''\<rparr>, Some db''))"
proof -
  let ?p = "\<lparr>vp_order_id = ''order_08091a2b'', vp_payment_id = None, vp_signature = None\<rparr>"
  have h1: "find_one (\<lambda>d. order_id d = Some (vp_order_id ?p)) (order_coll example_db) = Some example_order"
    by (simp add: example_db_def example_order_def)
  have h2: "distinct (map doc_id (order_coll example_db))"
    by (simp add: example_db_def)
  have c: "counter_value example_db = 0"
    by (simp add: example_db_def counter_value_def)
  have y: "str_int (local_year example_env) = ''2024''"
    by (simp add: example_env_def str_int_def digits.simps digit_char_def)
  have f2: "format_05d 2 = ''00002''"
    by (simp add: format_05d_nonneg digits.simps digit_char_def replicate_numeral_Cons)
  from verify_payment_existing_order [OF h1 h2 refl, of example_env example_env]
  show ?thesis
    using h1 h2 by (auto simp: c y f2 format_05d_1)
qed

section \<open>Listing orders\<close>









section \<open>The invoice page\<close>

lemma bson_int_fits_float: "bson_int n \<Longrightarrow> int_fits_float n"
proof -
  assume "bson_int n"
  then have "\<bar>n\<bar> \<le> 2 ^ 63" by (simp add: bson_int_def abs_le_iff)
  moreover have "(2::int) ^ 63 < 2 ^ 1024 - 2 ^ 970" by simp
  ultimately show ?thesis by (simp add: int_fits_float_def)
qed

lemma list_all_fits_float:
  "list_all (\<lambda>i. bson_int (quantity i)) xs \<Longrightarrow> list_all (\<lambda>i. int_fits_float (quantity i)) xs"
  by (induction xs) (simp_all add: bson_int_fits_float)

lemma html_1_title: "\<exists>pre. html_1 = pre @ ''<title>Invoice ''"
  unfolding html_1_def by (rule exI [of _ "nl @ ''    <html>'' @ nl @ ''      <head>'' @ nl @ ''        <meta charset='utf-8' />'' @ nl @ ''        ''"]) simp

lemma html_2_title: "\<exists>post. html_2 = ''</title>'' @ post"
  unfolding html_2_def by (simp add: nl_def)

lemma html_2_div: "\<exists>pre. html_2 = pre @ ''<div>''"
  unfolding html_2_def
  by (simp add: nl_def)

lemma html_3_div: "\<exists>post. html_3 = ''</div>'' @ post"
  unfolding html_3_def by (simp add: nl_def)

lemma get_invoice_found:
  assumes "find_one (\<lambda>d. order_id d = Some oid) (order_coll db) = Some ord"
    and "list_all (\<lambda>i. int_fits_float (quantity i)) (items_of ord)"
  shows "get_invoice fl e oid (Some db) =
     (Inr (html_1 @ (case invoice_number ord of None \<Rightarrow> ''PENDING'' | Some s \<Rightarrow> s) @ html_2 @
           (case invoice_number ord of None \<Rightarrow> ''PENDING'' | Some s \<Rightarrow> s) @ html_3 @
           (case user_email ord of None \<Rightarrow> ''None'' | Some s \<Rightarrow> s) @
           html_4 @ local_date e @ html_5 @ concat (map (item_row fl) (items_of ord)) @ html_6 @
           (case amount ord of None \<Rightarrow> ''0.00'' | Some a \<Rightarrow> format_2f fl a) @ html_7),
      Some db)"
  using assms by (simp add: get_invoice_def Let_def)

section \<open>What a request does to the store\<close>

lemma create_order_store:
  "\<exists>db'. snd (create_order fl e payload (Some db)) = Some db'
     \<and> invoicesequence db' = invoicesequence db \<and> name db' = name db"
  by (simp add: create_order_def Let_def split: sum.splits)

lemma post_api_orders_store:
  "\<exists>db'. snd (post_api_orders fl e body (Some db)) = Some db'
     \<and> invoicesequence db' = invoicesequence db \<and> name db' = name db"
  using create_order_store [of fl e _ db]
  by (simp add: post_api_orders_def validate_OrderIn_def)

lemma list_orders_store: "snd (list_orders email dbo) = dbo"
  by (simp add: list_orders_def Let_def split: option.splits)

lemma get_invoice_store: "snd (get_invoice fl e oid dbo) = dbo"
  by (simp add: get_invoice_def Let_def split: option.splits)

lemma verify_payment_store:
  "\<exists>db'. snd (verify_payment e p (Some db)) = Some db'
     \<and> (invoicesequence db' = invoicesequence db
        \<or> (\<exists>ord. find_one (\<lambda>d. order_id d = Some (vp_order_id p)) (order_coll db) = Some ord
             \<and> invoicesequence db' =
                 invoicesequence (snd (generate_invoice_number (local_year e) db))))"
proof (cases "find_one (\<lambda>d. order_id d = Some (vp_order_id p)) (order_coll db)")
  case None
  then show ?thesis by (simp add: verify_payment_not_found)
next
  case (Some ord)
  then show ?thesis by (simp add: verify_payment_found generate_invoice_number_eq)
qed

lemma handle_unconfigured: "snd (handle fl e r None) = None"
  by (cases r)
     (simp_all add: post_api_orders_def validate_OrderIn_def create_order_def verify_payment_def
        list_orders_def get_invoice_def)

lemma handle_store:
  "\<exists>db'. snd (handle fl e r (Some db)) = Some db'
     \<and> (invoicesequence db' = invoicesequence db
        \<or> (\<exists>p ord. r = VerifyPayment p
             \<and> find_one (\<lambda>d. order_id d = Some (vp_order_id p)) (order_coll db) = Some ord
             \<and> invoicesequence db' =
                 invoicesequence (snd (generate_invoice_number (local_year e) db))))"
proof (cases r)
  case (CreateOrder body)
  then show ?thesis using post_api_orders_store [of fl e body db] by auto
next
  case (VerifyPayment p)
  then show ?thesis using verify_payment_store [of e p db] by auto
qed (simp_all add: list_orders_store get_invoice_store)

text \<open>
  C3.  From a store without the counter document, the allocation inserts it with
  \<open>last_number\<close> 1 and returns the suffix \<open>00001\<close>.  Whatever request the program
  serves, the counter document afterwards is the one before, unless the request is a
  payment verification whose order exists: then it is the document an allocation leaves.
  A document that exists is never removed, and a request without a store changes nothing.
\<close>

theorem counter_created_and_mutated_by_allocation_only:
  "(invoicesequence db = None \<longrightarrow>
      generate_invoice_number y db =
        (''TRI/'' @ str_int y @ ''/00001'',
         db\<lparr>invoicesequence := Some \<lparr>last_number = Some 1\<rparr>\<rparr>))
   \<and> (\<exists>db'. snd (handle fl e r (Some db)) = Some db'
        \<and> (invoicesequence db' = invoicesequence db
           \<or> (\<exists>p ord. r = VerifyPayment p
                \<and> find_one (\<lambda>d. order_id d = Some (vp_order_id p)) (order_coll db) = Some ord
                \<and> invoicesequence db' =
                    invoicesequence (snd (generate_invoice_number (local_year e) db))))
        \<and> (invoicesequence db' = None \<longrightarrow> invoicesequence db = None))
   \<and> snd (handle fl e r None) = None"
proof (intro conjI impI)
  show "generate_invoice_number y db =
        (''TRI/'' @ str_int y @ ''/00001'',
         db\<lparr>invoicesequence := Some \<lparr>last_number = Some 1\<rparr>\<rparr>)"
    if "invoicesequence db = None"
    using that by (simp add: generate_invoice_number_eq counter_value_def format_05d_1)
  from handle_store [of fl e r db]
  obtain db' where h: "snd (handle fl e r (Some db)) = Some db'"
    and c: "invoicesequence db' = invoicesequence db
        \<or> (\<exists>p ord. r = VerifyPayment p
             \<and> find_one (\<lambda>d. order_id d = Some (vp_order_id p)) (order_coll db) = Some ord
             \<and> invoicesequence db' =
                 invoicesequence (snd (generate_invoice_number (local_year e) db)))"
    by blast
  from c have n: "invoicesequence db' = None \<longrightarrow> invoicesequence db = None"
    by (auto simp: generate_invoice_number_eq)
  show "\<exists>db'. snd (handle fl e r (Some db)) = Some db'
        \<and> (invoicesequence db' = invoicesequence db
           \<or> (\<exists>p ord. r = VerifyPayment p
                \<and> find_one (\<lambda>d. order_id d = Some (vp_order_id p)) (order_coll db) = Some ord
                \<and> invoicesequence db' =
                    invoicesequence (snd (generate_invoice_number (local_year e) db))))
        \<and> (invoicesequence db' = None \<longrightarrow> invoicesequence db = None)"
    by (rule exI [of _ db']) (intro conjI h c n)
  show "snd (handle fl e r None) = None"
    by (rule handle_unconfigured)
qed

theorem counter_created_and_mutated_by_allocation_only_witness:
  "invoicesequence example_db = None
   \<and> generate_invoice_number 2024 example_db =
       (''TRI/2024/00001'', example_db\<lparr>invoicesequence := Some \<lparr>last_number = Some 1\<rparr>\<rparr>)
   \<and> (\<forall>fl. \<exists>db'. snd (handle fl example_env (ListOrders ''a@example.com'') (Some example_db)) = Some db'
        \<and> invoicesequence db' = None)"
proof -
  have h: "invoicesequence example_db = None"
    by (simp add: example_db_def)
  have y: "str_int 2024 = ''2024''"
    by (simp add: str_int_def digits.simps digit_char_def)
  have "generate_invoice_number 2024 example_db =
       (''TRI/2024/00001'', example_db\<lparr>invoicesequence := Some \<lparr>last_number = Some 1\<rparr>\<rparr>)
     \<and> (\<exists>db'. snd (handle fl example_env (ListOrders ''a@example.com'') (Some example_db)) = Some db'
        \<and> invoicesequence db' = None)" for fl
    using counter_created_and_mutated_by_allocation_only
      [of example_db 2024 fl example_env "ListOrders ''a@example.com''"] h y
    by auto
  then show ?thesis using h by blast
qed

section \<open>Validation of an order request\<close>

lemma list_all_main_constraints: "list_all main_CartItem_constraints xs"
  by (induction xs) (simp_all add: main_CartItem_constraints_def)

lemma validate_OrderIn_main: "validate_OrderIn main_CartItem_constraints body = Inr body"
  unfolding validate_OrderIn_def
  using list_all_main_constraints [of "oi_items body"] by (simp only: if_True)

lemma minus_one_not_ge_zero: "\<not> float_ge_zero 0xBFF0000000000000"
  by (simp add: float_ge_zero_def float_is_nan_def)

text \<open>
  C9.  The endpoint validates against the \<open>CartItem\<close> of \<open>main.py\<close>, which has no
  field constraint.  A body with one item of quantity 0 and price -1.0, which the
  constraints of \<open>schemas.py\<close> reject, passes: the order is inserted with that item
  and the answer is \<open>created\<close>.
\<close>

theorem create_order_accepts_unconstrained_item:
  "\<not> schemas_CartItem_constraints
        \<lparr>product_id = ''p1'', title = ''Widget'', quantity = 0, price = 0xBFF0000000000000\<rparr>
   \<and> \<not> float_ge_zero 0xBFF0000000000000
   \<and> validate_OrderIn schemas_CartItem_constraints
        \<lparr>oi_user_email = ''a@example.com'',
         oi_items = [\<lparr>product_id = ''p1'', title = ''Widget'', quantity = 0,
                      price = 0xBFF0000000000000\<rparr>]\<rparr>
       = Inl (HTTPException 422 ''Unprocessable Entity'')
   \<and> (\<exists>resp db'.
        post_api_orders fl example_env
          \<lparr>oi_user_email = ''a@example.com'',
           oi_items = [\<lparr>product_id = ''p1'', title = ''Widget'', quantity = 0,
                        price = 0xBFF0000000000000\<rparr>]\<rparr>
          (Some example_db)
        = (Inr resp, Some db')
      \<and> co_status resp = ''created''
      \<and> map items (order_coll db') =
          [items example_order,
           Some [\<lparr>product_id = ''p1'', title = ''Widget'', quantity = 0,
                   price = 0xBFF0000000000000\<rparr>]])"
  by (simp add: schemas_CartItem_constraints_def minus_one_not_ge_zero validate_OrderIn_def
      main_CartItem_constraints_def post_api_orders_def create_order_def order_total_def int_fits_float_def
      insert_one_def items_of_def bson_int_def example_db_def example_order_def example_env_def
      Let_def map_update_one)

section \<open>Invariants of the collection of orders\<close>

text \<open>
  The two facts about stored orders that the theorems on them assume hold in the empty
  store and are kept by every request: the \<open>_id\<close>s are distinct, and every quantity
  is an integer that the store can hold.
\<close>

lemma items_of_set_paid [simp]: "items_of (set_paid pid n t d) = items_of d"
  by (simp add: items_of_def set_paid_def)

lemma stored_iff:
  "(\<forall>d\<in>set xs. list_all (\<lambda>i. bson_int (quantity i)) (items_of d)) \<longleftrightarrow>
   (\<forall>its\<in>set (map items_of xs). list_all (\<lambda>i. bson_int (quantity i)) its)"
  by simp

lemma create_order_invariants:
  assumes ids: "distinct (map doc_id (order_coll db))"
    and st: "\<forall>d\<in>set (order_coll db). list_all (\<lambda>i. bson_int (quantity i)) (items_of d)"
    and r: "snd (create_order fl e payload (Some db)) = Some db'"
  shows "distinct (map doc_id (order_coll db'))
    \<and> (\<forall>d\<in>set (order_coll db'). list_all (\<lambda>i. bson_int (quantity i)) (items_of d))"
proof (cases "order_total fl (oi_items payload)")
  case (Inl err)
  with r have "db' = db" by (simp add: create_order_def)
  with ids st show ?thesis by simp
next
  case (Inr amt)
  let ?doc = "\<lparr>doc_id = ObjectId (new_object_id e),
      user_email = Some (oi_user_email payload), items = Some (oi_items payload),
      amount = Some amt, status = ''created'', created_at = utc_now_first e,
      updated_at = utc_now_second e, order_id = None, payment_id = None,
      invoice_number = None\<rparr>"
  show ?thesis
  proof (cases "insert_one ?doc (order_coll db)")
    case (Inl err)
    with r Inr have "db' = db" by (simp add: create_order_def)
    with ids st show ?thesis by simp
  next
    case c: (Inr coll)
    let ?f = "\<lambda>d. d\<lparr>order_id := Some (''order_'' @ last_chars 8 (str_id (doc_id ?doc)))\<rparr>"
    from c have coll: "coll = order_coll db @ [?doc]"
      and fresh: "doc_id ?doc \<notin> set (map doc_id (order_coll db))"
      and ok: "list_all (\<lambda>i. bson_int (quantity i)) (items_of ?doc)"
      by (auto simp: insert_one_def split: if_splits)
    from r Inr c have db': "order_coll db' = update_one (\<lambda>d. doc_id d = doc_id ?doc) ?f coll"
      by (auto simp: create_order_def Let_def)
    have m1: "map doc_id (order_coll db') = map doc_id coll"
      unfolding db' by (rule map_update_one) simp
    have m2: "map items_of (order_coll db') = map items_of coll"
      unfolding db' by (rule map_update_one) (simp add: items_of_def)
    from ids fresh have "distinct (map doc_id coll)"
      by (simp add: coll)
    with m1 have 1: "distinct (map doc_id (order_coll db'))" by simp
    from st ok have "\<forall>its\<in>set (map items_of coll). list_all (\<lambda>i. bson_int (quantity i)) its"
      by (auto simp: coll)
    with m2 have 2: "\<forall>d\<in>set (order_coll db'). list_all (\<lambda>i. bson_int (quantity i)) (items_of d)"
      by (simp only: stored_iff)
    from 1 2 show ?thesis ..
  qed
qed

lemma verify_payment_invariants:
  assumes ids: "distinct (map doc_id (order_coll db))"
    and st: "\<forall>d\<in>set (order_coll db). list_all (\<lambda>i. bson_int (quantity i)) (items_of d)"
    and r: "snd (verify_payment e p (Some db)) = Some db'"
  shows "distinct (map doc_id (order_coll db'))
    \<and> (\<forall>d\<in>set (order_coll db'). list_all (\<lambda>i. bson_int (quantity i)) (items_of d))"
proof (cases "find_one (\<lambda>d. order_id d = Some (vp_order_id p)) (order_coll db)")
  case None
  with r have "db' = db" by (simp add: verify_payment_not_found)
  with ids st show ?thesis by simp
next
  case (Some ord)
  from r obtain f where db': "order_coll db' = update_one (\<lambda>d. doc_id d = doc_id ord) (set_paid (f::string) (''TRI/'' @ str_int (local_year e) @ ''/'' @ format_05d (counter_value db + 1)) (utc_now_first e)) (order_coll db)"
    by (auto simp: verify_payment_found [OF Some])
  have m1: "map doc_id (order_coll db') = map doc_id (order_coll db)"
    unfolding db' by (rule map_update_one) simp
  have m2: "map items_of (order_coll db') = map items_of (order_coll db)"
    unfolding db' by (rule map_update_one) simp
  from ids m1 have 1: "distinct (map doc_id (order_coll db'))" by simp
  from st have "\<forall>its\<in>set (map items_of (order_coll db)). list_all (\<lambda>i. bson_int (quantity i)) its"
    by simp
  with m2 have 2: "\<forall>d\<in>set (order_coll db'). list_all (\<lambda>i. bson_int (quantity i)) (items_of d)"
    by (simp only: stored_iff)
  from 1 2 show ?thesis ..
qed

lemma handle_invariants:
  assumes ids: "distinct (map doc_id (order_coll db))"
    and st: "\<forall>d\<in>set (order_coll db). list_all (\<lambda>i. bson_int (quantity i)) (items_of d)"
    and r: "snd (handle fl e req (Some db)) = Some db'"
  shows "distinct (map doc_id (order_coll db'))
    \<and> (\<forall>d\<in>set (order_coll db'). list_all (\<lambda>i. bson_int (quantity i)) (items_of d))"
proof (cases req)
  case (CreateOrder body)
  with r have "snd (create_order fl e body (Some db)) = Some db'"
    by (simp add: post_api_orders_def validate_OrderIn_main)
  with ids st show ?thesis by (rule create_order_invariants)
next
  case (VerifyPayment p)
  with r have "snd (verify_payment e p (Some db)) = Some db'" by simp
  with ids st show ?thesis by (rule verify_payment_invariants)
next
  case (ListOrders email)
  with r have "db' = db" by (simp add: list_orders_store)
  with ids st show ?thesis by simp
next
  case (GetInvoice oid)
  with r have "db' = db" by (simp add: get_invoice_store)
  with ids st show ?thesis by simp
qed (use ids st r in simp_all)

section \<open>The order total\<close>

lemmas b64_fields = b64_sign_def b64_exp_def b64_frac_def b64_is_nan_def b64_is_inf_def
  b64_mant_def b64_expo_def b64_sig_def

lemmas b64_rounding = b64_round_def b64_pack_def round_half_even_def Let_def bitlen.simps



lemma b64_of_int_2: "b64_of_int 2 = 0x4000000000000000"
  by (simp add: b64_of_int_def b64_rounding)

lemma b64_mul_example_1: "b64_mul 0x4025000000000000 0x4000000000000000 = 0x4035000000000000"
  by (simp add: b64_mul_def b64_fields b64_rounding)





lemma b64_format_2f_example_1: "b64_format_2f 0x4035000000000000 = ''21.00''"
  by (simp add: b64_format_2f_def b64_fields round_half_even_def Let_def digits.simps digit_char_def)

lemma b64_format_2f_example_2: "b64_format_2f 0x4025000000000000 = ''10.50''"
  by (simp add: b64_format_2f_def b64_fields round_half_even_def Let_def digits.simps digit_char_def)






section \<open>The invoice of an order without a number\<close>

lemma items_of_invoice_number [simp]: "items_of (d\<lparr>invoice_number := n\<rparr>) = items_of d"
  by (simp add: items_of_def)

text \<open>
  C10.  For an order that the lookup finds and that has no \<open>invoice_number\<close>, the
  handler does not fail and leaves the store alone.  What it returns is the invoice page
  of that order: its email, the date, one row for each of its items and its amount, with
  \<open>PENDING\<close> at the two places where the page of the same order with a number
  \<open>s\<close> has \<open>s\<close>, the title and the line under the heading.  The quantities of a
  stored order are 64-bit integers, as \<open>insert_one\<close> requires.
\<close>

theorem get_invoice_pending:
  assumes found: "find_one (\<lambda>d. order_id d = Some oid) (order_coll db) = Some ord"
    and pending: "invoice_number ord = None"
    and stored: "list_all (\<lambda>i. bson_int (quantity i)) (items_of ord)"
  shows "get_invoice fl e oid (Some db) =
      (Inr (html_1 @ ''PENDING'' @ html_2 @ ''PENDING'' @ html_3 @
            (case user_email ord of None \<Rightarrow> ''None'' | Some u \<Rightarrow> u) @
            html_4 @ local_date e @ html_5 @ concat (map (item_row fl) (items_of ord)) @ html_6 @
            (case amount ord of None \<Rightarrow> ''0.00'' | Some a \<Rightarrow> format_2f fl a) @ html_7),
       Some db)
    \<and> sublist ''<title>Invoice PENDING</title>'' (html_1 @ ''PENDING'' @ html_2)
    \<and> sublist ''<div>PENDING</div>'' (html_2 @ ''PENDING'' @ html_3)
    \<and> (\<forall>db2 s.
          find_one (\<lambda>d. order_id d = Some oid) (order_coll db2) = Some (ord\<lparr>invoice_number := Some s\<rparr>)
          \<longrightarrow> get_invoice fl e oid (Some db2) =
              (Inr (html_1 @ s @ html_2 @ s @ html_3 @
                    (case user_email ord of None \<Rightarrow> ''None'' | Some u \<Rightarrow> u) @
                    html_4 @ local_date e @ html_5 @ concat (map (item_row fl) (items_of ord)) @
                    html_6 @
                    (case amount ord of None \<Rightarrow> ''0.00'' | Some a \<Rightarrow> format_2f fl a) @ html_7),
               Some db2))"
proof (intro conjI allI impI)
  from stored have fits: "list_all (\<lambda>i. int_fits_float (quantity i)) (items_of ord)"
    by (rule list_all_fits_float)
  from found fits pending
  show "get_invoice fl e oid (Some db) =
      (Inr (html_1 @ ''PENDING'' @ html_2 @ ''PENDING'' @ html_3 @
            (case user_email ord of None \<Rightarrow> ''None'' | Some u \<Rightarrow> u) @
            html_4 @ local_date e @ html_5 @ concat (map (item_row fl) (items_of ord)) @ html_6 @
            (case amount ord of None \<Rightarrow> ''0.00'' | Some a \<Rightarrow> format_2f fl a) @ html_7),
       Some db)"
    by (simp add: get_invoice_found)
  obtain pre1 where p1: "html_1 = pre1 @ ''<title>Invoice ''" using html_1_title by blast
  obtain post2 where p2: "html_2 = ''</title>'' @ post2" using html_2_title by blast
  obtain pre2 where p3: "html_2 = pre2 @ ''<div>''" using html_2_div by blast
  obtain post3 where p4: "html_3 = ''</div>'' @ post3" using html_3_div by blast
  have "html_1 @ ''PENDING'' @ html_2 = pre1 @ ''<title>Invoice PENDING</title>'' @ post2"
    by (simp add: p1 p2)
  then show "sublist ''<title>Invoice PENDING</title>'' (html_1 @ ''PENDING'' @ html_2)"
    by (simp only: sublist_appendI)
  have "html_2 @ ''PENDING'' @ html_3 = pre2 @ ''<div>PENDING</div>'' @ post3"
    by (simp add: p3 p4)
  then show "sublist ''<div>PENDING</div>'' (html_2 @ ''PENDING'' @ html_3)"
    by (simp only: sublist_appendI)
  fix db2 :: database and s :: string
  assume f2: "find_one (\<lambda>d. order_id d = Some oid) (order_coll db2) = Some (ord\<lparr>invoice_number := Some s\<rparr>)"
  from fits have "list_all (\<lambda>i. int_fits_float (quantity i)) (items_of (ord\<lparr>invoice_number := Some s\<rparr>))"
    by simp
  with f2 show "get_invoice fl e oid (Some db2) =
              (Inr (html_1 @ s @ html_2 @ s @ html_3 @
                    (case user_email ord of None \<Rightarrow> ''None'' | Some u \<Rightarrow> u) @
                    html_4 @ local_date e @ html_5 @ concat (map (item_row fl) (items_of ord)) @
                    html_6 @
                    (case amount ord of None \<Rightarrow> ''0.00'' | Some a \<Rightarrow> format_2f fl a) @ html_7),
               Some db2)"
    by (simp add: get_invoice_found)
qed

theorem get_invoice_pending_witness:
  "find_one (\<lambda>d. order_id d = Some ''order_08091a2b'') (order_coll example_db) = Some example_order
   \<and> invoice_number example_order = None
   \<and> list_all (\<lambda>i. bson_int (quantity i)) (items_of example_order)
   \<and> get_invoice binary64 example_env ''order_08091a2b'' (Some example_db) =
       (Inr (html_1 @ ''PENDING'' @ html_2 @ ''PENDING'' @ html_3 @ ''a@example.com'' @
             html_4 @ ''2024-03-13'' @ html_5 @
             (''<tr><td>Widget</td><td style='text-align:center'>2</td><td style='text-align:right'>'' @
              rupee @ ''10.50</td><td style='text-align:right'>'' @ rupee @ ''21.00</td></tr>'') @
             html_6 @ ''21.00'' @ html_7),
        Some example_db)"
proof -
  have h1: "find_one (\<lambda>d. order_id d = Some ''order_08091a2b'') (order_coll example_db) = Some example_order"
    by (simp add: example_db_def example_order_def)
  have h2: "invoice_number example_order = None"
    by (simp add: example_order_def)
  have h3: "list_all (\<lambda>i. bson_int (quantity i)) (items_of example_order)"
    by (simp add: example_order_def items_of_def bson_int_def)
  have two: "str_int 2 = ''2''"
    by (simp add: str_int_def digits.simps digit_char_def)
  have row: "concat (map (item_row binary64) (items_of example_order)) =
      ''<tr><td>Widget</td><td style='text-align:center'>2</td><td style='text-align:right'>'' @
      rupee @ ''10.50</td><td style='text-align:right'>'' @ rupee @ ''21.00</td></tr>''"
    by (simp add: example_order_def items_of_def item_row_def binary64_def two b64_of_int_2
        b64_mul_example_1 b64_format_2f_example_1 b64_format_2f_example_2)
  have rest: "user_email example_order = Some ''a@example.com''"
    "amount example_order = Some 0x4035000000000000" "local_date example_env = ''2024-03-13''"
    "format_2f binary64 = b64_format_2f"
    by (simp_all add: example_order_def example_env_def binary64_def)
  from get_invoice_pending [OF h1 h2 h3, of binary64 example_env]
  have "get_invoice binary64 example_env ''order_08091a2b'' (Some example_db) =
      (Inr (html_1 @ ''PENDING'' @ html_2 @ ''PENDING'' @ html_3 @
            (case user_email example_order of None \<Rightarrow> ''None'' | Some u \<Rightarrow> u) @
            html_4 @ local_date example_env @ html_5 @
            concat (map (item_row binary64) (items_of example_order)) @ html_6 @
            (case amount example_order of None \<Rightarrow> ''0.00'' | Some a \<Rightarrow> format_2f binary64 a) @
            html_7),
       Some example_db)"
    by (rule conjunct1)
  with h1 h2 h3 show ?thesis
    by (simp only: row rest option.case b64_format_2f_example_1 simp_thms)
qed

end
